theory Spec2Isabelle
  imports Complex_Main "HOL-Library.Multiset"
begin

section \<open>The sample type\<close>

text \<open>
  Every signal value, coefficient and frequency of the program is a C++ \<open>float\<close>.
  A value is either finite or one of the three special values of IEEE 754. A finite value
  carries a real number and finite arithmetic is exact: rounding, overflow to an infinity and
  the sign of zero are not part of the model. The special values follow the IEEE rules
  (a NaN operand gives NaN, \<open>inf - inf\<close>, \<open>0 * inf\<close>, \<open>0 / 0\<close> and \<open>inf / inf\<close> give NaN,
  a non-zero finite value divided by zero gives an infinity, every comparison with NaN is false).

  A finite value of the model can therefore differ from the program's in its last bits, and a
  quantity that is zero only after rounding is not zero here. The properties below are chosen
  so that this makes no difference: they are about which fields a function reads and writes,
  about the special values, about products and sums of zeros, about two terms built from the
  same operations, or they are bounds with room to spare. Whether two different orders of
  rounded operations give the same bits is outside the model.
\<close>

datatype float = Fin real | PInf | NInf | NaN

fun is_Fin :: "float \<Rightarrow> bool" where
  "is_Fin (Fin r) = True"
| "is_Fin PInf = False"
| "is_Fin NInf = False"
| "is_Fin NaN = False"

fun isnan :: "float \<Rightarrow> bool" where
  "isnan NaN = True"
| "isnan (Fin r) = False"
| "isnan PInf = False"
| "isnan NInf = False"

fun isinf :: "float \<Rightarrow> bool" where
  "isinf PInf = True"
| "isinf NInf = True"
| "isinf (Fin r) = False"
| "isinf NaN = False"


instantiation float :: "{zero, one, plus, uminus, minus, times, inverse, abs, ord}"
begin

definition zero_float :: float where
  "zero_float = Fin 0"

definition one_float :: float where
  "one_float = Fin 1"

fun plus_float :: "float \<Rightarrow> float \<Rightarrow> float" where
  "plus_float NaN y = NaN"
| "plus_float x NaN = NaN"
| "plus_float (Fin a) (Fin b) = Fin (a + b)"
| "plus_float PInf NInf = NaN"
| "plus_float NInf PInf = NaN"
| "plus_float PInf y = PInf"
| "plus_float NInf y = NInf"
| "plus_float (Fin a) y = y"

fun uminus_float :: "float \<Rightarrow> float" where
  "uminus_float (Fin a) = Fin (- a)"
| "uminus_float PInf = NInf"
| "uminus_float NInf = PInf"
| "uminus_float NaN = NaN"

definition minus_float :: "float \<Rightarrow> float \<Rightarrow> float" where
  "minus_float x y = x + (- y)"

fun times_float :: "float \<Rightarrow> float \<Rightarrow> float" where
  "times_float NaN y = NaN"
| "times_float x NaN = NaN"
| "times_float (Fin a) (Fin b) = Fin (a * b)"
| "times_float PInf PInf = PInf"
| "times_float PInf NInf = NInf"
| "times_float NInf PInf = NInf"
| "times_float NInf NInf = PInf"
| "times_float (Fin a) PInf = (if a = 0 then NaN else if 0 < a then PInf else NInf)"
| "times_float (Fin a) NInf = (if a = 0 then NaN else if 0 < a then NInf else PInf)"
| "times_float PInf (Fin b) = (if b = 0 then NaN else if 0 < b then PInf else NInf)"
| "times_float NInf (Fin b) = (if b = 0 then NaN else if 0 < b then NInf else PInf)"

fun divide_float :: "float \<Rightarrow> float \<Rightarrow> float" where
  "divide_float NaN y = NaN"
| "divide_float x NaN = NaN"
| "divide_float (Fin a) (Fin b) =
     (if b = 0 then (if a = 0 then NaN else if 0 < a then PInf else NInf) else Fin (a / b))"
| "divide_float (Fin a) PInf = Fin 0"
| "divide_float (Fin a) NInf = Fin 0"
| "divide_float PInf (Fin b) = (if 0 \<le> b then PInf else NInf)"
| "divide_float NInf (Fin b) = (if 0 \<le> b then NInf else PInf)"
| "divide_float PInf y = NaN"
| "divide_float NInf y = NaN"

fun inverse_float :: "float \<Rightarrow> float" where
  "inverse_float (Fin b) = (if b = 0 then PInf else Fin (1 / b))"
| "inverse_float PInf = Fin 0"
| "inverse_float NInf = Fin 0"
| "inverse_float NaN = NaN"

fun abs_float :: "float \<Rightarrow> float" where
  "abs_float (Fin a) = Fin \<bar>a\<bar>"
| "abs_float PInf = PInf"
| "abs_float NInf = PInf"
| "abs_float NaN = NaN"

fun less_float :: "float \<Rightarrow> float \<Rightarrow> bool" where
  "less_float NaN y = False"
| "less_float x NaN = False"
| "less_float (Fin a) (Fin b) = (a < b)"
| "less_float x NInf = False"
| "less_float PInf y = False"
| "less_float NInf y = True"
| "less_float (Fin a) PInf = True"

fun less_eq_float :: "float \<Rightarrow> float \<Rightarrow> bool" where
  "less_eq_float NaN y = False"
| "less_eq_float x NaN = False"
| "less_eq_float (Fin a) (Fin b) = (a \<le> b)"
| "less_eq_float NInf y = True"
| "less_eq_float x PInf = True"
| "less_eq_float PInf y = False"
| "less_eq_float (Fin a) NInf = False"

instance ..

end

text \<open>The C++ operators \<open>==\<close> and \<open>!=\<close> on floats: NaN is unequal to everything, itself included.\<close>

definition float_eq :: "float \<Rightarrow> float \<Rightarrow> bool" where
  "float_eq x y = (\<not> isnan x \<and> \<not> isnan y \<and> x = y)"

definition float_ne :: "float \<Rightarrow> float \<Rightarrow> bool" where
  "float_ne x y = (\<not> float_eq x y)"

text \<open>\<open>std::max(a, b)\<close> is \<open>(a < b) ? b : a\<close>.\<close>

definition std_max :: "float \<Rightarrow> float \<Rightarrow> float" where
  "std_max a b = (if a < b then b else a)"

text \<open>The functions of \<open><cmath>\<close> the program calls.\<close>

fun fsin :: "float \<Rightarrow> float" where
  "fsin (Fin a) = Fin (sin a)"
| "fsin PInf = NaN"
| "fsin NInf = NaN"
| "fsin NaN = NaN"

fun fcos :: "float \<Rightarrow> float" where
  "fcos (Fin a) = Fin (cos a)"
| "fcos PInf = NaN"
| "fcos NInf = NaN"
| "fcos NaN = NaN"

fun fsqrt :: "float \<Rightarrow> float" where
  "fsqrt (Fin a) = (if a < 0 then NaN else Fin (sqrt a))"
| "fsqrt PInf = PInf"
| "fsqrt NInf = NaN"
| "fsqrt NaN = NaN"

fun fsinh :: "float \<Rightarrow> float" where
  "fsinh (Fin a) = Fin (sinh a)"
| "fsinh PInf = PInf"
| "fsinh NInf = NInf"
| "fsinh NaN = NaN"

fun flog :: "float \<Rightarrow> float" where
  "flog (Fin a) = (if a < 0 then NaN else if a = 0 then NInf else Fin (ln a))"
| "flog PInf = PInf"
| "flog NInf = NaN"
| "flog NaN = NaN"

section \<open>Filter.h, Filter.cpp: the biquad filter\<close>

text \<open>\<open>#define PI 3.14159265358979323846\<close>\<close>

definition PI :: float where
  "PI = Fin 3.14159265358979323846"

datatype FilterType = HighPass | BandPass | LowPass

record Filter =
  b0 :: float
  b1 :: float
  b2 :: float
  a0 :: float
  a1 :: float
  a2 :: float
  x1 :: float
  x2 :: float
  y1 :: float
  y2 :: float

text \<open>
  \<open>float Filter::process(float input)\<close>: the output sample and the filter after the call.
\<close>

definition Filter_process :: "Filter \<Rightarrow> float \<Rightarrow> float \<times> Filter" where
  "Filter_process f input =
     (let output = b0 f * input + b1 f * x1 f + b2 f * x2 f - a1 f * y1 f - a2 f * y2 f
      in (output, f\<lparr>x2 := x1 f, x1 := input, y2 := y1 f, y1 := output\<rparr>))"

text \<open>\<open>float rectify(float input)\<close>\<close>

definition rectify :: "float \<Rightarrow> float" where
  "rectify input = \<bar>input\<bar>"

text \<open>
  \<open>Filter::Filter(FilterType type, float sample_rate, float freq1, float freq2, float q)\<close>,
  lines 10 to 56: the delay lines are set to zero and the \<open>switch\<close> computes the raw
  coefficients. \<open>FilterType\<close> has three enumerators, so the \<open>default\<close> branch has no
  value to run on.
\<close>

fun coefficients :: "FilterType \<Rightarrow> float \<Rightarrow> float \<Rightarrow> float \<Rightarrow> float \<Rightarrow> Filter" where
  "coefficients HighPass sample_rate freq1 freq2 q =
     (let omega = Fin 2 * PI * freq1 / sample_rate;
          alpha = fsin omega / (Fin 2 * q)
      in \<lparr>b0 = (Fin 1 + fcos omega) / Fin 2,
          b1 = - (Fin 1 + fcos omega),
          b2 = (Fin 1 + fcos omega) / Fin 2,
          a0 = Fin 1 + alpha,
          a1 = - Fin 2 * fcos omega,
          a2 = Fin 1 - alpha,
          x1 = Fin 0, x2 = Fin 0, y1 = Fin 0, y2 = Fin 0\<rparr>)"
| "coefficients BandPass sample_rate freq1 freq2 q =
     (let wc = Fin 2 * PI * fsqrt (freq1 * freq2) / sample_rate;
          bw = Fin 2 * PI * (freq2 - freq1) / sample_rate;
          alpha = fsin bw * fsinh (flog (Fin 2) / Fin 2 * Fin 1 * PI / Fin 2);
          cosw = fcos wc
      in \<lparr>b0 = alpha,
          b1 = Fin 0,
          b2 = - alpha,
          a0 = Fin 1 + alpha,
          a1 = - Fin 2 * cosw,
          a2 = Fin 1 - alpha,
          x1 = Fin 0, x2 = Fin 0, y1 = Fin 0, y2 = Fin 0\<rparr>)"
| "coefficients LowPass sample_rate freq1 freq2 q =
     (let omega = Fin 2 * PI * freq1 / sample_rate;
          alpha = fsin omega / (Fin 2 * q)
      in \<lparr>b0 = (Fin 1 - fcos omega) / Fin 2,
          b1 = Fin 1 - fcos omega,
          b2 = (Fin 1 - fcos omega) / Fin 2,
          a0 = Fin 1 + alpha,
          a1 = - Fin 2 * fcos omega,
          a2 = Fin 1 - alpha,
          x1 = Fin 0, x2 = Fin 0, y1 = Fin 0, y2 = Fin 0\<rparr>)"

text \<open>Lines 58 to 64: every coefficient is divided by \<open>a0\<close>, then \<open>a0 = 1.0f\<close>.\<close>

definition normalize :: "Filter \<Rightarrow> Filter" where
  "normalize f =
     f\<lparr>b0 := b0 f / a0 f, b1 := b1 f / a0 f, b2 := b2 f / a0 f,
       a1 := a1 f / a0 f, a2 := a2 f / a0 f, a0 := Fin 1\<rparr>"

definition Filter_Filter :: "FilterType \<Rightarrow> float \<Rightarrow> float \<Rightarrow> float \<Rightarrow> float \<Rightarrow> Filter" where
  "Filter_Filter type sample_rate freq1 freq2 q =
     normalize (coefficients type sample_rate freq1 freq2 q)"

text \<open>The default arguments of the declaration in Filter.h: \<open>freq2 = 0.0f\<close>, \<open>q = 1.0f\<close>.\<close>

definition Filter_Filter3 :: "FilterType \<Rightarrow> float \<Rightarrow> float \<Rightarrow> Filter" where
  "Filter_Filter3 type sample_rate freq1 = Filter_Filter type sample_rate freq1 (Fin 0) (Fin 1)"

definition Filter_Filter4 :: "FilterType \<Rightarrow> float \<Rightarrow> float \<Rightarrow> float \<Rightarrow> Filter" where
  "Filter_Filter4 type sample_rate freq1 freq2 = Filter_Filter type sample_rate freq1 freq2 (Fin 1)"

text \<open>A filter called once per sample of an input stream: the outputs and the final filter.\<close>

fun process_stream :: "Filter \<Rightarrow> float list \<Rightarrow> float list \<times> Filter" where
  "process_stream f [] = ([], f)"
| "process_stream f (input # rest) =
     (let (output, f') = Filter_process f input;
          (outputs, f'') = process_stream f' rest
      in (output # outputs, f''))"

text \<open>The six coefficient fields of a filter, in the order of their declaration.\<close>

definition coefficient_fields :: "Filter \<Rightarrow> float \<times> float \<times> float \<times> float \<times> float \<times> float" where
  "coefficient_fields f = (b0 f, b1 f, b2 f, a0 f, a1 f, a2 f)"

text \<open>The delay lines of a filter that has processed nothing, or only zeros.\<close>

definition zero_delay_lines :: "Filter \<Rightarrow> bool" where
  "zero_delay_lines f = (x1 f = Fin 0 \<and> x2 f = Fin 0 \<and> y1 f = Fin 0 \<and> y2 f = Fin 0)"

text \<open>The five coefficients that \<open>process\<close> reads are finite.\<close>

definition finite_coefficients :: "Filter \<Rightarrow> bool" where
  "finite_coefficients f =
     (is_Fin (b0 f) \<and> is_Fin (b1 f) \<and> is_Fin (b2 f) \<and> is_Fin (a1 f) \<and> is_Fin (a2 f))"

text \<open>
  The configurations that the specification calls invalid: a non-positive sample rate, a
  band-pass with \<open>freq2 \<le> freq1\<close>, a non-positive Q.
\<close>

definition invalid_configuration ::
    "FilterType \<Rightarrow> float \<Rightarrow> float \<Rightarrow> float \<Rightarrow> float \<Rightarrow> bool" where
  "invalid_configuration type sample_rate freq1 freq2 q =
     (sample_rate \<le> Fin 0 \<or> (type = BandPass \<and> freq2 \<le> freq1) \<or> q \<le> Fin 0)"

text \<open>The filter whose five computed coefficients are NaN.\<close>

definition all_NaN :: Filter where
  "all_NaN = \<lparr>b0 = NaN, b1 = NaN, b2 = NaN, a0 = Fin 1, a1 = NaN, a2 = NaN,
              x1 = Fin 0, x2 = Fin 0, y1 = Fin 0, y2 = Fin 0\<rparr>"

text \<open>
  The configurations that the specification does not call invalid, read positively: the sample
  rate and Q are positive and a band-pass has \<open>freq1 < freq2\<close>.
\<close>

definition spec_valid_configuration ::
    "FilterType \<Rightarrow> float \<Rightarrow> float \<Rightarrow> float \<Rightarrow> float \<Rightarrow> bool" where
  "spec_valid_configuration type sample_rate freq1 freq2 q =
     (Fin 0 < sample_rate \<and> Fin 0 < q \<and> (if type = BandPass then freq1 < freq2 else True))"

subsection \<open>The coefficient formulas as the specification words them\<close>

text \<open>
  \<open>\<omega> = 2\<pi>\<cdot>f/sampleRate\<close>, \<open>\<alpha> = sin(\<omega>)/(2Q)\<close>; the raw coefficients are returned in the order
  \<open>(a0, a1, a2, b0, b1, b2)\<close>.
\<close>

definition spec_omega :: "float \<Rightarrow> float \<Rightarrow> float" where
  "spec_omega sample_rate f = Fin 2 * PI * f / sample_rate"

definition spec_alpha :: "float \<Rightarrow> float \<Rightarrow> float \<Rightarrow> float" where
  "spec_alpha sample_rate f Q = fsin (spec_omega sample_rate f) / (Fin 2 * Q)"

fun spec_raw :: "FilterType \<Rightarrow> float \<Rightarrow> float \<Rightarrow> float \<Rightarrow> float \<Rightarrow>
    float \<times> float \<times> float \<times> float \<times> float \<times> float" where
  "spec_raw HighPass sample_rate freq1 freq2 Q =
     (let w = spec_omega sample_rate freq1; al = spec_alpha sample_rate freq1 Q
      in (Fin 1 + al, - (Fin 2 * fcos w), Fin 1 - al,
          (Fin 1 + fcos w) / Fin 2, - (Fin 1 + fcos w), (Fin 1 + fcos w) / Fin 2))"
| "spec_raw LowPass sample_rate freq1 freq2 Q =
     (let w = spec_omega sample_rate freq1; al = spec_alpha sample_rate freq1 Q
      in (Fin 1 + al, - (Fin 2 * fcos w), Fin 1 - al,
          (Fin 1 - fcos w) / Fin 2, Fin 1 - fcos w, (Fin 1 - fcos w) / Fin 2))"
| "spec_raw BandPass sample_rate freq1 freq2 Q =
     (let wc = Fin 2 * PI * fsqrt (freq1 * freq2) / sample_rate;
          wbw = Fin 2 * PI * (freq2 - freq1) / sample_rate;
          al = fsin wbw * fsinh (flog (Fin 2) / Fin 2 * (PI / Fin 2))
      in (Fin 1 + al, - (Fin 2 * fcos wc), Fin 1 - al, al, Fin 0, - al))"

text \<open>
  All coefficients are divided by the raw \<open>a0\<close>, and thereafter \<open>a0 = 1\<close>; the state is
  zero-initialised.
\<close>

definition spec_filter :: "FilterType \<Rightarrow> float \<Rightarrow> float \<Rightarrow> float \<Rightarrow> float \<Rightarrow> Filter" where
  "spec_filter type sample_rate freq1 freq2 Q =
     (case spec_raw type sample_rate freq1 freq2 Q of
        (ra0, ra1, ra2, rb0, rb1, rb2) \<Rightarrow>
          \<lparr>b0 = rb0 / ra0, b1 = rb1 / ra0, b2 = rb2 / ra0,
           a0 = Fin 1, a1 = ra1 / ra0, a2 = ra2 / ra0,
           x1 = Fin 0, x2 = Fin 0, y1 = Fin 0, y2 = Fin 0\<rparr>)"

section \<open>Constants that EMGProcessingSimulation.cpp and Wave\_Processing.cpp share\<close>

definition SAMPLE_RATE :: float where
  "SAMPLE_RATE = Fin 2000"

definition TIME_STEP :: float where
  "TIME_STEP = Fin 1 / SAMPLE_RATE"

definition BUFFER_SIZE :: nat where
  "BUFFER_SIZE = 1000"

definition EMG_FREQ :: float where
  "EMG_FREQ = Fin 20"

definition BANDPASS_LOW :: float where
  "BANDPASS_LOW = Fin 5"

definition BANDPASS_HIGH :: float where
  "BANDPASS_HIGH = Fin 50"

definition LOWPASS_CUTOFF :: float where
  "LOWPASS_CUTOFF = Fin 2"

section \<open>The random source\<close>

text \<open>
  The engine \<open>std::mt19937 gen\<close> and the five \<open>std::uniform_real_distribution<float>\<close>
  objects are not modelled: \<open>gen\<close> is the sequence of the values that the successive calls
  \<open>dist(gen)\<close>, \<open>amp_dist(gen)\<close>, \<open>freq_dist(gen)\<close>, \<open>burst_dist(gen)\<close> and \<open>burst_scale(gen)\<close>
  return, whatever they are. A call takes the first value and leaves the rest.
\<close>

type_synonym mt19937 = "nat \<Rightarrow> float"

definition draw :: "mt19937 \<Rightarrow> float \<times> mt19937" where
  "draw gen = (gen 0, \<lambda>n. gen (Suc n))"


section \<open>The synthetic signal generator\<close>

text \<open>The four \<open>static\<close> locals of \<open>generate_emg_signal\<close>, with their initial values.\<close>

record Generator =
  phase1 :: float
  phase2 :: float
  burst_factor :: float
  burst_duration :: int

definition Generator_init :: Generator where
  "Generator_init = \<lparr>phase1 = Fin 0, phase2 = Fin 0, burst_factor = Fin 1, burst_duration = 0\<rparr>"

text \<open>
  The burst update that opens \<open>generate_emg_signal\<close> (EMGProcessingSimulation.cpp lines 85 to
  95, Wave\_Processing.cpp lines 62 to 72, the same text). \<open>buffer_index\<close> is the global ring
  cursor, never negative, so \<open>%\<close> is \<open>mod\<close>.
\<close>

definition burst_update :: "nat \<Rightarrow> Generator \<Rightarrow> mt19937 \<Rightarrow> Generator \<times> mt19937" where
  "burst_update buffer_index s gen =
     (let (s1, gen1) =
        (if buffer_index mod 50 = 0 then
           (let (u, gen') = draw gen in
            if u < Fin 0.2 then
              (let (scale, gen'') = draw gen'
               in (s\<lparr>burst_factor := scale, burst_duration := 100\<rparr>, gen''))
            else if burst_duration s \<le> 0 then (s\<lparr>burst_factor := Fin 1\<rparr>, gen')
            else (s, gen'))
         else (s, gen))
      in (if burst_duration s1 > 0 then s1\<lparr>burst_duration := burst_duration s1 - 1\<rparr> else s1,
          gen1))"

subsection \<open>EMGProcessingSimulation.cpp\<close>

definition POWER_LINE_FREQ :: float where
  "POWER_LINE_FREQ = Fin 3"

definition POWER_LINE_AMPLITUDE :: float where
  "POWER_LINE_AMPLITUDE = Fin 1"

text \<open>
  \<open>float generate_emg_signal(float t)\<close>: the arguments are \<open>t\<close>, the global \<open>buffer_index\<close>, the
  static locals and the random source; the result is the sample with the static locals and the
  random source after the call. The warning written to \<open>std::cerr\<close> is left out.
\<close>

definition generate_emg_signal ::
    "float \<Rightarrow> nat \<Rightarrow> Generator \<Rightarrow> mt19937 \<Rightarrow> float \<times> Generator \<times> mt19937" where
  "generate_emg_signal time buffer_index s gen =
     (let (s1, g1) = burst_update buffer_index s gen;
          (r1, g2) = draw g1;
          amp1 = Fin 0.5 * r1;
          (r2, g3) = draw g2;
          amp2 = Fin 0.3 * r2;
          (r3, g4) = draw g3;
          freq1 = EMG_FREQ * r3;
          (r4, g5) = draw g4;
          freq2 = (EMG_FREQ * Fin 1.5) * r4;
          s2 = s1\<lparr>phase1 := phase1 s1 + Fin 2 * PI * freq1 * TIME_STEP\<rparr>;
          s3 = s2\<lparr>phase2 := phase2 s2 + Fin 2 * PI * freq2 * TIME_STEP\<rparr>;
          emg = burst_factor s3 * (amp1 * fsin (phase1 s3) + amp2 * fsin (phase2 s3));
          emg1 = emg + POWER_LINE_AMPLITUDE * fsin (Fin 2 * PI * POWER_LINE_FREQ * time);
          (noise, g6) = draw g5;
          emg2 = emg1 + noise
      in if isnan emg2 \<or> isinf emg2 then (Fin 0, s3, g6) else (emg2, s3, g6))"


subsection \<open>Wave\_Processing.cpp\<close>

text \<open>\<open>#define M_PI 3.14159265358979323846\<close>\<close>

definition M_PI :: float where
  "M_PI = Fin 3.14159265358979323846"

definition WP_POWER_LINE_FREQ :: float where
  "WP_POWER_LINE_FREQ = Fin 10"

definition WP_POWER_LINE_AMPLITUDE :: float where
  "WP_POWER_LINE_AMPLITUDE = Fin 0.3"

text \<open>\<open>float generate_emg_signal(float t)\<close> of Wave\_Processing.cpp, lines 56 to 87.\<close>

definition WP_generate_emg_signal ::
    "float \<Rightarrow> nat \<Rightarrow> Generator \<Rightarrow> mt19937 \<Rightarrow> float \<times> Generator \<times> mt19937" where
  "WP_generate_emg_signal time buffer_index s gen =
     (let (s1, g1) = burst_update buffer_index s gen;
          (r1, g2) = draw g1;
          amp1 = Fin 0.5 * r1;
          (r2, g3) = draw g2;
          amp2 = Fin 0.3 * r2;
          (r3, g4) = draw g3;
          freq1 = EMG_FREQ * r3;
          (r4, g5) = draw g4;
          freq2 = (EMG_FREQ * Fin 1.5) * r4;
          s2 = s1\<lparr>phase1 := phase1 s1 + Fin 2 * M_PI * freq1 * TIME_STEP\<rparr>;
          s3 = s2\<lparr>phase2 := phase2 s2 + Fin 2 * M_PI * freq2 * TIME_STEP\<rparr>;
          emg = burst_factor s3 * (amp1 * fsin (phase1 s3) + amp2 * fsin (phase2 s3));
          emg1 = emg + WP_POWER_LINE_AMPLITUDE * fsin (Fin 2 * M_PI * WP_POWER_LINE_FREQ * time);
          (noise, g6) = draw g5;
          emg2 = emg1 + noise
      in (emg2, s3, g6))"

section \<open>EMGProcessingSimulation.cpp: the ring buffers and the main loop\<close>

text \<open>
  The three global vectors and their shared cursor. The program's vectors have
  \<open>BUFFER_SIZE\<close> elements; the functions below take the capacity as an argument, so that a
  statement can be made for every capacity.
\<close>

record Buffers =
  raw_signal :: "float list"
  filtered_signal :: "float list"
  envelope_signal :: "float list"
  buffer_index :: nat

definition Buffers_init :: "nat \<Rightarrow> Buffers" where
  "Buffers_init capacity =
     \<lparr>raw_signal = replicate capacity (Fin 0),
      filtered_signal = replicate capacity (Fin 0),
      envelope_signal = replicate capacity (Fin 0),
      buffer_index = 0\<rparr>"

text \<open>
  \<open>main\<close>, lines 294 to 298: the three samples of a tick are written at the cursor and the
  cursor advances. The cursor is below the capacity whenever this runs (it starts at 0 and
  is only ever assigned a remainder), so each write is in range.
\<close>

definition write_samples :: "nat \<Rightarrow> float \<times> float \<times> float \<Rightarrow> Buffers \<Rightarrow> Buffers" where
  "write_samples capacity sample B =
     (case sample of (raw, bandpass_filtered, enveloped) \<Rightarrow>
        B\<lparr>raw_signal := (raw_signal B)[buffer_index B := raw],
          filtered_signal := (filtered_signal B)[buffer_index B := bandpass_filtered],
          envelope_signal := (envelope_signal B)[buffer_index B := enveloped],
          buffer_index := (buffer_index B + 1) mod capacity\<rparr>)"

text \<open>The writes of a sequence of ticks, oldest first.\<close>

fun write_all :: "nat \<Rightarrow> (float \<times> float \<times> float) list \<Rightarrow> Buffers \<Rightarrow> Buffers" where
  "write_all capacity [] B = B"
| "write_all capacity (sample # rest) B = write_all capacity rest (write_samples capacity sample B)"

text \<open>
  \<open>render_signals\<close>, lines 154 to 157 (and the same loop for the other two vectors): the values
  of a vector in the order they are read, \<open>signal[(buffer_index + i) % BUFFER_SIZE]\<close> for
  \<open>i = 0, ..., BUFFER_SIZE - 1\<close>.
\<close>

definition displayed :: "nat \<Rightarrow> float list \<Rightarrow> nat \<Rightarrow> float list" where
  "displayed capacity signal index = map (\<lambda>i. signal ! ((index + i) mod capacity)) [0..<capacity]"

text \<open>
  The state of the program: the globals (\<open>adjustable_highpass_cutoff\<close>, \<open>is_paused\<close>, the
  buffers, the random source), the static locals of the generator and the locals of \<open>main\<close>.
\<close>

record Simulation =
  adjustable_highpass_cutoff :: float
  is_paused :: bool
  buffers :: Buffers
  gen :: mt19937
  generator :: Generator
  highPassFilter :: Filter
  bandPassFilter :: Filter
  lowPassFilter :: Filter
  sim_t :: float
  last_highpass_cutoff :: float

text \<open>\<open>main\<close> up to the loop (lines 268 to 274), for a given random source.\<close>

definition Simulation_init :: "mt19937 \<Rightarrow> Simulation" where
  "Simulation_init g =
     \<lparr>adjustable_highpass_cutoff = Fin 5,
      is_paused = False,
      buffers = Buffers_init BUFFER_SIZE,
      gen = g,
      generator = Generator_init,
      highPassFilter = Filter_Filter3 HighPass SAMPLE_RATE (Fin 5),
      bandPassFilter = Filter_Filter4 BandPass SAMPLE_RATE BANDPASS_LOW BANDPASS_HIGH,
      lowPassFilter = Filter_Filter3 LowPass SAMPLE_RATE LOWPASS_CUTOFF,
      sim_t = Fin 0,
      last_highpass_cutoff = Fin 5\<rparr>"

text \<open>Lines 279 to 284: the high-pass filter is constructed again when the cutoff has changed.\<close>

definition reinitialize_highpass :: "Simulation \<Rightarrow> Simulation" where
  "reinitialize_highpass S =
     (if float_ne (adjustable_highpass_cutoff S) (last_highpass_cutoff S) then
        S\<lparr>highPassFilter := Filter_Filter3 HighPass SAMPLE_RATE (adjustable_highpass_cutoff S),
          last_highpass_cutoff := adjustable_highpass_cutoff S\<rparr>
      else S)"

text \<open>Lines 286 to 310: one tick of the cascade, unless paused. The console output is left out.\<close>

definition update_signals :: "Simulation \<Rightarrow> Simulation" where
  "update_signals S =
     (if \<not> is_paused S then
        (let (raw, generator', gen') =
               generate_emg_signal (sim_t S) (buffer_index (buffers S)) (generator S) (gen S);
             (highpassed, highPassFilter') = Filter_process (highPassFilter S) raw;
             (bandpass_filtered, bandPassFilter') = Filter_process (bandPassFilter S) highpassed;
             rectified = rectify bandpass_filtered;
             (enveloped, lowPassFilter') = Filter_process (lowPassFilter S) rectified
         in S\<lparr>gen := gen',
              generator := generator',
              highPassFilter := highPassFilter',
              bandPassFilter := bandPassFilter',
              lowPassFilter := lowPassFilter',
              buffers := write_samples BUFFER_SIZE (raw, bandpass_filtered, enveloped) (buffers S),
              sim_t := sim_t S + TIME_STEP\<rparr>)
      else S)"

text \<open>
  \<open>key_callback\<close>, lines 49 to 65, on the keys and actions it tests. GLFW calls it from
  \<open>glfwPollEvents\<close>, once per pending event.
\<close>

datatype Key = GLFW_KEY_SPACE | GLFW_KEY_UP | GLFW_KEY_DOWN | GLFW_KEY_other

datatype Action = GLFW_PRESS | GLFW_REPEAT | GLFW_RELEASE

definition key_callback :: "Key \<Rightarrow> Action \<Rightarrow> Simulation \<Rightarrow> Simulation" where
  "key_callback key action S =
     (let S1 = (if key = GLFW_KEY_SPACE \<and> action = GLFW_PRESS
                then S\<lparr>is_paused := \<not> is_paused S\<rparr> else S)
      in if action = GLFW_PRESS \<or> action = GLFW_REPEAT then
           (let S2 = (if key = GLFW_KEY_UP
                      then S1\<lparr>adjustable_highpass_cutoff :=
                                adjustable_highpass_cutoff S1 + Fin 0.5\<rparr>
                      else S1)
            in if key = GLFW_KEY_DOWN
               then S2\<lparr>adjustable_highpass_cutoff :=
                         std_max (Fin 1) (adjustable_highpass_cutoff S2 - Fin 0.5)\<rparr>
               else S2)
         else S1)"

fun glfwPollEvents :: "(Key \<times> Action) list \<Rightarrow> Simulation \<Rightarrow> Simulation" where
  "glfwPollEvents [] S = S"
| "glfwPollEvents ((key, action) # events) S = glfwPollEvents events (key_callback key action S)"

text \<open>
  One iteration of the loop of \<open>main\<close> (lines 276 to 321), given the events that are pending
  when it polls. Rendering changes nothing of the state.
\<close>

definition loop_iteration :: "(Key \<times> Action) list \<Rightarrow> Simulation \<Rightarrow> Simulation" where
  "loop_iteration events S = glfwPollEvents events (update_signals (reinitialize_highpass S))"

text \<open>The states the program reaches: any random source, any events at each poll.\<close>

inductive reachable :: "Simulation \<Rightarrow> bool" where
  start: "reachable (Simulation_init g)"
| iteration: "reachable S \<Longrightarrow> reachable (loop_iteration events S)"

text \<open>
  What holds of the burst countdown \<open>d\<close> and the ring cursor \<open>i\<close> between two ticks: the countdown
  is between 0 and 99; while it runs, \<open>d + i\<close> is a multiple of 50 (it was armed at a multiple of
  50 and both move by one per tick); when it is zero, either the next tick holds a trial or the
  multiplier is 1.
\<close>

definition burst_invariant :: "Generator \<Rightarrow> nat \<Rightarrow> bool" where
  "burst_invariant s i =
     (0 \<le> burst_duration s \<and> burst_duration s \<le> 99 \<and> i < BUFFER_SIZE
      \<and> (if 0 < burst_duration s then (burst_duration s + int i) mod 50 = 0
          else i mod 50 = 0 \<or> burst_factor s = Fin 1))"

section \<open>Arithmetic of the sample type\<close>

lemma neg_two_times: "Fin (- 2) * x = - (Fin 2 * x)"
  by (cases x) simp_all

lemma divide_by_zero_not_finite: "\<not> is_Fin (x / Fin 0)"
  by (cases x) simp_all

lemma fsin_not_finite: "\<not> is_Fin x \<Longrightarrow> fsin x = NaN"
  by (cases x) simp_all

lemma fcos_not_finite: "\<not> is_Fin x \<Longrightarrow> fcos x = NaN"
  by (cases x) simp_all

lemma NaN_arith:
  "NaN + x = NaN" "x + NaN = NaN" "NaN * x = NaN" "x * NaN = NaN" "NaN / x = NaN" "x / NaN = NaN"
  "NaN - x = NaN" "x - NaN = NaN" "- NaN = NaN"
  by (cases x; simp add: minus_float_def)+


lemma times_zero: "c * Fin 0 = (if is_Fin c then Fin 0 else NaN)"
  by (cases c) simp_all









section \<open>Properties of the biquad filter\<close>

text \<open>
  C1. For every filter and every input sample, \<open>Filter::process\<close> returns
  \<open>b0*input + b1*x1 + b2*x2 - a1*y1 - a2*y2\<close> computed from the state held before the call,
  and after the call the delay lines hold \<open>x2 = old x1\<close>, \<open>x1 = input\<close>, \<open>y2 = old y1\<close> and
  \<open>y1 =\<close> the returned output.
\<close>

theorem process_difference_equation:
  "fst (Filter_process f input) =
     b0 f * input + b1 f * x1 f + b2 f * x2 f - a1 f * y1 f - a2 f * y2 f
   \<and> x2 (snd (Filter_process f input)) = x1 f
   \<and> x1 (snd (Filter_process f input)) = input
   \<and> y2 (snd (Filter_process f input)) = y1 f
   \<and> y1 (snd (Filter_process f input)) = fst (Filter_process f input)"
  by (simp add: Filter_process_def Let_def)

lemma bandpass_shape: "Fin (ln 2 / 2) * PI / Fin 2 = Fin (ln 2 / 2) * (PI / Fin 2)"
  by (simp add: PI_def)

text \<open>
  C2. For every sample rate, corner frequencies and Q, the constructor computes its coefficients
  by the formulas of the specification, divides every coefficient by the raw \<open>a0\<close> and sets
  \<open>a0 = 1\<close>; the band-pass coefficients do not depend on Q.
\<close>

theorem constructor_formulas:
  "Filter_Filter type sample_rate freq1 freq2 q = spec_filter type sample_rate freq1 freq2 q
   \<and> a0 (Filter_Filter type sample_rate freq1 freq2 q) = Fin 1
   \<and> Filter_Filter BandPass sample_rate freq1 freq2 q
       = Filter_Filter BandPass sample_rate freq1 freq2 q'"
  by (cases type)
     (simp_all add: Filter_Filter_def normalize_def spec_filter_def spec_omega_def
        spec_alpha_def Let_def neg_two_times bandpass_shape)

text \<open>
  C10. A call of \<open>Filter::process\<close> leaves the six coefficient fields as they were, and so
  does every sequence of calls: the coefficients of a filter are those of its construction.
\<close>

theorem process_keeps_coefficients:
  "coefficient_fields (snd (Filter_process f input)) = coefficient_fields f
   \<and> coefficient_fields (snd (process_stream f inputs)) = coefficient_fields f
   \<and> coefficient_fields
        (snd (process_stream (Filter_Filter type sample_rate freq1 freq2 q) inputs))
       = coefficient_fields (Filter_Filter type sample_rate freq1 freq2 q)"
proof -
  have step: "coefficient_fields (snd (Filter_process g v)) = coefficient_fields g" for g v
    by (simp add: Filter_process_def coefficient_fields_def Let_def)
  have run: "coefficient_fields (snd (process_stream g vs)) = coefficient_fields g" for g vs
  proof (induction vs arbitrary: g)
    case Nil
    show ?case by simp
  next
    case (Cons v vs)
    have "coefficient_fields (snd (process_stream g (v # vs)))
        = coefficient_fields (snd (process_stream (snd (Filter_process g v)) vs))"
      by (simp add: split_beta Let_def)
    also have "\<dots> = coefficient_fields (snd (Filter_process g v))"
      by (rule Cons.IH)
    also have "\<dots> = coefficient_fields g"
      by (rule step)
    finally show ?case .
  qed
  show ?thesis
    using step run by simp
qed

subsection \<open>Zero input\<close>

lemma one_plus_half_sin: "1 + sin (x::real) / 2 \<noteq> 0"
proof -
  have "- 1 \<le> sin x" by simp
  then show ?thesis by linarith
qed

lemma zero_step:
  assumes "finite_coefficients f" "x1 f = Fin 0" "x2 f = Fin 0" "y1 f = Fin 0" "y2 f = Fin 0"
  shows "Filter_process f (Fin 0) = (Fin 0, f)"
proof -
  obtain p0 p1 p2 q1 q2
    where c: "b0 f = Fin p0" "b1 f = Fin p1" "b2 f = Fin p2" "a1 f = Fin q1" "a2 f = Fin q2"
    using assms(1) unfolding finite_coefficients_def
    by (metis is_Fin.elims(2))
  show ?thesis
    using assms(2-) c by (simp add: Filter_process_def Let_def minus_float_def)
qed

lemma zero_stream:
  assumes "finite_coefficients f" "x1 f = Fin 0" "x2 f = Fin 0" "y1 f = Fin 0" "y2 f = Fin 0"
  shows "process_stream f (replicate n (Fin 0)) = (replicate n (Fin 0), f)"
  by (induction n) (simp_all add: zero_step[OF assms])

lemma bandwidth_shape_bound:
  "0 < sinh (ln 2 / 2 * 1 * 3.14159265358979323846 / 2 :: real)"
  "sinh (ln 2 / 2 * 1 * 3.14159265358979323846 / 2 :: real) < 1"
proof -
  define x :: real where "x = ln 2 / 2 * 1 * 3.14159265358979323846 / 2"
  have l: "0 < ln (2::real)" by simp
  have x0: "0 < x" unfolding x_def using l by simp
  have "x = ln 2 * (3.14159265358979323846 / 4)" unfolding x_def by simp
  also have "\<dots> \<le> ln 2 * 1"
    using l by (intro mult_left_mono) simp_all
  finally have "x \<le> ln 2" by simp
  then have "exp x \<le> exp (ln 2)" by (simp only: exp_le_cancel_iff)
  also have "exp (ln 2) = (2::real)" by simp
  finally have e: "exp x \<le> 2" .
  have "sinh x = (exp x - exp (- x)) / 2"
    by (rule sinh_field_def)
  also have "\<dots> < exp x / 2"
    by simp
  also have "\<dots> \<le> 1"
    using e by simp
  finally have "sinh x < 1" .
  then show "sinh (ln 2 / 2 * 1 * 3.14159265358979323846 / 2 :: real) < 1"
    unfolding x_def .
  show "0 < sinh (ln 2 / 2 * 1 * 3.14159265358979323846 / 2 :: real)"
    using x0 unfolding x_def by simp
qed

lemma one_plus_sin_times: "0 \<le> c \<Longrightarrow> c < 1 \<Longrightarrow> 1 + sin (x::real) * c \<noteq> 0"
proof -
  assume c: "0 \<le> c" "c < 1"
  have "\<bar>sin x * c\<bar> = \<bar>sin x\<bar> * c"
    using c by (simp add: abs_mult)
  also have "\<dots> \<le> 1 * c"
    using c by (intro mult_right_mono) simp_all
  finally have "\<bar>sin x * c\<bar> < 1" using c by simp
  then show ?thesis by linarith
qed

lemma nan_step:
  assumes "\<not> finite_coefficients f" "zero_delay_lines f"
  shows "fst (Filter_process f (Fin 0)) = NaN"
  using assms
  by (auto simp add: finite_coefficients_def zero_delay_lines_def Filter_process_def Let_def
        times_zero NaN_arith)

lemma nan_feedback:
  assumes "y1 f = NaN"
  shows "fst (process_stream f inputs) = replicate (length inputs) NaN"
  using assms
proof (induction inputs arbitrary: f)
  case Nil
  show ?case by simp
next
  case (Cons v vs)
  have "fst (Filter_process f v) = NaN" "y1 (snd (Filter_process f v)) = NaN"
    using Cons.prems by (simp_all add: Filter_process_def Let_def NaN_arith)
  then show ?case
    using Cons.IH [of "snd (Filter_process f v)"] by (simp add: split_beta Let_def)
qed

lemma nan_stream:
  assumes "\<not> finite_coefficients f" "zero_delay_lines f"
  shows "fst (process_stream f (replicate n (Fin 0))) = replicate n NaN"
proof (cases n)
  case 0
  then show ?thesis by simp
next
  case (Suc m)
  have o: "fst (Filter_process f (Fin 0)) = NaN"
    using assms by (rule nan_step)
  then have "y1 (snd (Filter_process f (Fin 0))) = NaN"
    by (simp add: Filter_process_def Let_def)
  then have "fst (process_stream (snd (Filter_process f (Fin 0))) (replicate m (Fin 0)))
      = replicate m NaN"
    using nan_feedback [of "snd (Filter_process f (Fin 0))" "replicate m (Fin 0)"] by simp
  then show ?thesis
    using o Suc by (simp add: split_beta Let_def)
qed

lemma constructor_zero_delay_lines:
  "zero_delay_lines (Filter_Filter type sample_rate freq1 freq2 q)"
  by (cases type) (simp_all add: zero_delay_lines_def Filter_Filter_def normalize_def Let_def)

text \<open>The three filters that \<open>main\<close> constructs have finite coefficients.\<close>

lemma program_filters_finite:
  "finite_coefficients (Filter_Filter3 HighPass SAMPLE_RATE (Fin 5))"
  "finite_coefficients (Filter_Filter4 BandPass SAMPLE_RATE BANDPASS_LOW BANDPASS_HIGH)"
  "finite_coefficients (Filter_Filter3 LowPass SAMPLE_RATE LOWPASS_CUTOFF)"
proof -
  show "finite_coefficients (Filter_Filter3 HighPass SAMPLE_RATE (Fin 5))"
    by (simp add: finite_coefficients_def Filter_Filter3_def Filter_Filter_def normalize_def
          SAMPLE_RATE_def PI_def Let_def minus_float_def one_plus_half_sin)
  show "finite_coefficients (Filter_Filter4 BandPass SAMPLE_RATE BANDPASS_LOW BANDPASS_HIGH)"
    using bandwidth_shape_bound
    by (simp add: finite_coefficients_def Filter_Filter4_def Filter_Filter_def normalize_def
          SAMPLE_RATE_def BANDPASS_LOW_def BANDPASS_HIGH_def PI_def Let_def minus_float_def
          one_plus_sin_times)
  show "finite_coefficients (Filter_Filter3 LowPass SAMPLE_RATE LOWPASS_CUTOFF)"
    by (simp add: finite_coefficients_def Filter_Filter3_def Filter_Filter_def normalize_def
          SAMPLE_RATE_def LOWPASS_CUTOFF_def PI_def Let_def minus_float_def one_plus_half_sin)
qed

text \<open>
  C4, as stated, fails: \<open>Filter(BandPass, 2000, -5, 50, 1)\<close> has a positive sample rate, a
  positive Q and \<open>freq1 < freq2\<close>, so it is none of the configurations that the specification
  calls invalid. Its centre frequency is computed from \<open>sqrt(-250)\<close>, which is NaN, and so is
  \<open>a1\<close>; on three zero samples the filter returns three NaN.
\<close>

theorem zero_input_counterexample:
  "spec_valid_configuration BandPass (Fin 2000) (Fin (- 5)) (Fin 50) (Fin 1)
   \<and> fst (process_stream (Filter_Filter BandPass (Fin 2000) (Fin (- 5)) (Fin 50) (Fin 1))
            (replicate 3 (Fin 0)))
     = [NaN, NaN, NaN]"
proof -
  have "a1 (Filter_Filter BandPass (Fin 2000) (Fin (- 5)) (Fin 50) (Fin 1)) = NaN"
    by (simp add: Filter_Filter_def normalize_def Let_def NaN_arith)
  then have "\<not> finite_coefficients (Filter_Filter BandPass (Fin 2000) (Fin (- 5)) (Fin 50) (Fin 1))"
    by (simp add: finite_coefficients_def)
  then have "fst (process_stream (Filter_Filter BandPass (Fin 2000) (Fin (- 5)) (Fin 50) (Fin 1))
            (replicate 3 (Fin 0))) = replicate 3 NaN"
    using constructor_zero_delay_lines by (rule nan_stream)
  then show ?thesis
    by (simp add: spec_valid_configuration_def numeral_3_eq_3)
qed

text \<open>
  C4, amended. The constructor leaves the delay lines at zero, whatever the
  configuration. A filter with zero delay lines that is fed an all-zero input stream of any
  length produces an all-zero output stream, and is after the stream the filter it was before,
  when its five coefficients \<open>b0, b1, b2, a1, a2\<close> are finite; when one of them is NaN or
  infinite, every output is NaN. The statement is about the coefficients that the filter holds,
  not about the arguments they were computed from: zero is a fixed point of \<open>process\<close> exactly
  for the finite coefficients.
\<close>

theorem zero_input_fixed_point:
  "zero_delay_lines (Filter_Filter type sample_rate freq1 freq2 q)
   \<and> (zero_delay_lines f \<and> finite_coefficients f \<longrightarrow>
        process_stream f (replicate n (Fin 0)) = (replicate n (Fin 0), f))
   \<and> (zero_delay_lines f \<and> \<not> finite_coefficients f \<longrightarrow>
        fst (process_stream f (replicate n (Fin 0))) = replicate n NaN)"
  using constructor_zero_delay_lines [of type sample_rate freq1 freq2 q]
    zero_stream [of f n] nan_stream [of f n]
  by (simp add: zero_delay_lines_def)

text \<open>
  The high-pass filter of \<open>main\<close> on three zero samples, and the filter whose coefficients
  are NaN (the one a sample rate of 0 gives) on three zero samples.
\<close>

theorem zero_input_fixed_point_witness:
  "zero_delay_lines (Filter_Filter3 HighPass SAMPLE_RATE (Fin 5))
   \<and> finite_coefficients (Filter_Filter3 HighPass SAMPLE_RATE (Fin 5))
   \<and> process_stream (Filter_Filter3 HighPass SAMPLE_RATE (Fin 5)) (replicate 3 (Fin 0))
       = ([Fin 0, Fin 0, Fin 0], Filter_Filter3 HighPass SAMPLE_RATE (Fin 5))
   \<and> zero_delay_lines all_NaN \<and> \<not> finite_coefficients all_NaN
   \<and> fst (process_stream all_NaN (replicate 3 (Fin 0))) = [NaN, NaN, NaN]"
proof -
  have z: "zero_delay_lines (Filter_Filter3 HighPass SAMPLE_RATE (Fin 5))"
    unfolding Filter_Filter3_def by (rule constructor_zero_delay_lines)
  have n: "zero_delay_lines all_NaN" "\<not> finite_coefficients all_NaN"
    by (simp_all add: zero_delay_lines_def finite_coefficients_def all_NaN_def)
  have r: "replicate 3 x = [x, x, x]" for x :: float
    by (simp add: numeral_3_eq_3)
  show ?thesis
    using z program_filters_finite(1) n
      zero_input_fixed_point [of HighPass SAMPLE_RATE "Fin 5" "Fin 0" "Fin 1"
        "Filter_Filter3 HighPass SAMPLE_RATE (Fin 5)" 3]
      zero_input_fixed_point [of HighPass SAMPLE_RATE "Fin 5" "Fin 0" "Fin 1" all_NaN 3]
    by (simp only: r) blast
qed

section \<open>Properties of the ring buffers\<close>

lemma displayed_rotate:
  assumes "length signal = capacity"
  shows "displayed capacity signal index = rotate index signal"
proof (rule nth_equalityI)
  show "length (displayed capacity signal index) = length (rotate index signal)"
    using assms by (simp add: displayed_def)
next
  fix i assume "i < length (displayed capacity signal index)"
  then have i: "i < capacity" by (simp add: displayed_def)
  then show "displayed capacity signal index ! i = rotate index signal ! i"
    using assms by (simp add: displayed_def nth_rotate)
qed

lemma mod_shift_neq:
  fixes i d n :: nat
  assumes "i < n" "0 < d" "d < n"
  shows "(i + d) mod n \<noteq> i"
proof (cases "i + d < n")
  case True
  then show ?thesis using assms by simp
next
  case False
  then have "(i + d) mod n = i + d - n"
    using assms by (simp add: mod_if)
  then show ?thesis using assms False by simp
qed

lemma displayed_write:
  assumes n: "length signal = capacity" and i: "index < capacity"
  shows "displayed capacity (signal[index := v]) ((index + 1) mod capacity)
         = tl (displayed capacity signal index) @ [v]"
proof (rule nth_equalityI)
  show "length (displayed capacity (signal[index := v]) ((index + 1) mod capacity))
        = length (tl (displayed capacity signal index) @ [v])"
    using i by (simp add: displayed_def)
next
  fix j assume "j < length (displayed capacity (signal[index := v]) ((index + 1) mod capacity))"
  then have j: "j < capacity" by (simp add: displayed_def)
  have lhs: "displayed capacity (signal[index := v]) ((index + 1) mod capacity) ! j
        = signal[index := v] ! ((index + (j + 1)) mod capacity)"
  proof -
    have "((index + 1) mod capacity + j) mod capacity = ((index + 1) + j) mod capacity"
      by (rule mod_add_left_eq)
    also have "(index + 1) + j = index + (j + 1)"
      by simp
    finally have "((index + 1) mod capacity + j) mod capacity = (index + (j + 1)) mod capacity" .
    then show ?thesis
      using j by (simp add: displayed_def)
  qed
  have len: "length (displayed capacity signal index) = capacity"
    by (simp add: displayed_def)
  show "displayed capacity (signal[index := v]) ((index + 1) mod capacity) ! j
        = (tl (displayed capacity signal index) @ [v]) ! j"
  proof (cases "j + 1 = capacity")
    case True
    then have "(index + (j + 1)) mod capacity = index"
      using i by simp
    moreover have "(tl (displayed capacity signal index) @ [v]) ! j = v"
    proof -
      have "j = length (tl (displayed capacity signal index))"
        using True len by simp
      then show ?thesis
        by (simp only: nth_append_length)
    qed
    ultimately show ?thesis
      using lhs n i by simp
  next
    case False
    then have j1: "j + 1 < capacity" using j by simp
    then have neq: "(index + (j + 1)) mod capacity \<noteq> index"
      using i by (intro mod_shift_neq) simp_all
    have "(tl (displayed capacity signal index) @ [v]) ! j
          = displayed capacity signal index ! (j + 1)"
    proof -
      have "j < length (tl (displayed capacity signal index))"
        using j1 len by simp
      then show ?thesis
        by (simp add: nth_append nth_tl)
    qed
    also have "\<dots> = signal ! ((index + (j + 1)) mod capacity)"
      using j1 by (simp add: displayed_def)
    finally show ?thesis
      using lhs neq by simp
  qed
qed

lemma write_samples_lengths:
  assumes "0 < capacity"
    and "length (raw_signal B) = capacity" and "length (filtered_signal B) = capacity"
    and "length (envelope_signal B) = capacity" and "buffer_index B < capacity"
  shows "length (raw_signal (write_samples capacity x B)) = capacity"
    and "length (filtered_signal (write_samples capacity x B)) = capacity"
    and "length (envelope_signal (write_samples capacity x B)) = capacity"
    and "buffer_index (write_samples capacity x B) < capacity"
  using assms by (simp_all add: write_samples_def split_beta)

lemma displayed_write_samples:
  assumes "length (raw_signal B) = capacity" and "length (filtered_signal B) = capacity"
    and "length (envelope_signal B) = capacity" and "buffer_index B < capacity"
  shows "displayed capacity (raw_signal (write_samples capacity x B))
           (buffer_index (write_samples capacity x B))
         = tl (displayed capacity (raw_signal B) (buffer_index B)) @ [fst x]"
    and "displayed capacity (filtered_signal (write_samples capacity x B))
           (buffer_index (write_samples capacity x B))
         = tl (displayed capacity (filtered_signal B) (buffer_index B)) @ [fst (snd x)]"
    and "displayed capacity (envelope_signal (write_samples capacity x B))
           (buffer_index (write_samples capacity x B))
         = tl (displayed capacity (envelope_signal B) (buffer_index B)) @ [snd (snd x)]"
  using assms displayed_write [of _ capacity "buffer_index B"]
  by (simp_all add: write_samples_def split_beta)

lemma drop_window:
  assumes "d \<noteq> []"
  shows "drop n (tl d @ v # vs) = drop (Suc n) (d @ v # vs)"
  using assms by (cases d) simp_all

lemma displayed_write_all:
  assumes "0 < capacity"
    and "length (raw_signal B) = capacity" and "length (filtered_signal B) = capacity"
    and "length (envelope_signal B) = capacity" and "buffer_index B < capacity"
  shows "displayed capacity (raw_signal (write_all capacity xs B))
           (buffer_index (write_all capacity xs B))
         = drop (length xs) (displayed capacity (raw_signal B) (buffer_index B) @ map fst xs)
       \<and> displayed capacity (filtered_signal (write_all capacity xs B))
           (buffer_index (write_all capacity xs B))
         = drop (length xs)
             (displayed capacity (filtered_signal B) (buffer_index B) @ map (fst \<circ> snd) xs)
       \<and> displayed capacity (envelope_signal (write_all capacity xs B))
           (buffer_index (write_all capacity xs B))
         = drop (length xs)
             (displayed capacity (envelope_signal B) (buffer_index B) @ map (snd \<circ> snd) xs)
       \<and> length (raw_signal (write_all capacity xs B)) = capacity
       \<and> length (filtered_signal (write_all capacity xs B)) = capacity
       \<and> length (envelope_signal (write_all capacity xs B)) = capacity
       \<and> buffer_index (write_all capacity xs B) < capacity"
  using assms(2-)
proof (induction xs arbitrary: B)
  case Nil
  then show ?case by simp
next
  case (Cons x xs)
  note len = write_samples_lengths [OF assms(1) Cons.prems, of x]
  note IH = Cons.IH [OF len]
  note step = displayed_write_samples [OF Cons.prems, of x]
  have ne: "displayed capacity s i \<noteq> []" for s i
    using assms(1) by (simp add: displayed_def)
  have win: "drop (length xs) ((tl (displayed capacity s i) @ [v]) @ vs)
             = drop (length (x # xs)) (displayed capacity s i @ v # vs)" for s i v vs
    using drop_window [OF ne, of "length xs" s i v vs] by simp
  have w: "write_all capacity (x # xs) B = write_all capacity xs (write_samples capacity x B)"
    by simp
  show ?case
    unfolding w using IH unfolding step win by (simp add: comp_def)
qed

lemma mset_rotate: "mset (rotate n xs) = mset xs"
proof -
  have "mset (rotate n xs)
      = mset (drop (n mod length xs) xs) + mset (take (n mod length xs) xs)"
    by (simp add: rotate_drop_take)
  also have "\<dots> = mset (take (n mod length xs) xs @ drop (n mod length xs) xs)"
    by (simp only: mset_append add.commute)
  finally show ?thesis by simp
qed

text \<open>
  C3. For every capacity \<open>N > 0\<close> and every \<open>k\<close>, after the writes of \<open>N + k\<close> ticks the values read
  at the indices \<open>(buffer_index + i) mod N\<close>, \<open>i = 0, ..., N - 1\<close>, are the last \<open>N\<close> written values,
  oldest first, in each of the three vectors; and each vector holds those \<open>N\<close> values and
  nothing else, so no older sample can be read from it.
\<close>

theorem ring_buffer_last_samples:
  assumes "0 < capacity"
    and "length (raw_signal B) = capacity" and "length (filtered_signal B) = capacity"
    and "length (envelope_signal B) = capacity" and "buffer_index B < capacity"
    and "length samples = capacity + k"
  shows "displayed capacity (raw_signal (write_all capacity samples B))
           (buffer_index (write_all capacity samples B))
         = map fst (drop k samples)
       \<and> displayed capacity (filtered_signal (write_all capacity samples B))
           (buffer_index (write_all capacity samples B))
         = map (fst \<circ> snd) (drop k samples)
       \<and> displayed capacity (envelope_signal (write_all capacity samples B))
           (buffer_index (write_all capacity samples B))
         = map (snd \<circ> snd) (drop k samples)
       \<and> mset (raw_signal (write_all capacity samples B)) = mset (map fst (drop k samples))
       \<and> mset (filtered_signal (write_all capacity samples B))
         = mset (map (fst \<circ> snd) (drop k samples))
       \<and> mset (envelope_signal (write_all capacity samples B))
         = mset (map (snd \<circ> snd) (drop k samples))"
proof -
  define B' where "B' = write_all capacity samples B"
  note all = displayed_write_all [OF assms(1-5), of samples, folded B'_def]
  have window: "drop (length samples) (displayed capacity s i @ map f samples)
                = map f (drop k samples)" for s i and f :: "float \<times> float \<times> float \<Rightarrow> float"
    using assms(6) by (simp add: displayed_def drop_map)
  have d1: "displayed capacity (raw_signal B') (buffer_index B') = map fst (drop k samples)"
    using all window by simp
  have d2: "displayed capacity (filtered_signal B') (buffer_index B')
            = map (fst \<circ> snd) (drop k samples)"
    using all window by simp
  have d3: "displayed capacity (envelope_signal B') (buffer_index B')
            = map (snd \<circ> snd) (drop k samples)"
    using all window by simp
  have m: "mset s = mset (displayed capacity s i)" if "length s = capacity" for s i
    using that by (simp add: displayed_rotate mset_rotate)
  have "mset (raw_signal B') = mset (map fst (drop k samples))"
    using m [of "raw_signal B'" "buffer_index B'"] all d1 by simp
  moreover have "mset (filtered_signal B') = mset (map (fst \<circ> snd) (drop k samples))"
    using m [of "filtered_signal B'" "buffer_index B'"] all d2 by simp
  moreover have "mset (envelope_signal B') = mset (map (snd \<circ> snd) (drop k samples))"
    using m [of "envelope_signal B'" "buffer_index B'"] all d3 by simp
  ultimately show ?thesis
    using d1 d2 d3 unfolding B'_def by simp
qed

text \<open>Capacity 3, five ticks: the raw vector is read as the samples of ticks 3, 4 and 5.\<close>

theorem ring_buffer_last_samples_witness:
  "displayed 3
     (raw_signal (write_all 3
        [(Fin 1, Fin 10, Fin 100), (Fin 2, Fin 20, Fin 200), (Fin 3, Fin 30, Fin 300),
         (Fin 4, Fin 40, Fin 400), (Fin 5, Fin 50, Fin 500)] (Buffers_init 3)))
     (buffer_index (write_all 3
        [(Fin 1, Fin 10, Fin 100), (Fin 2, Fin 20, Fin 200), (Fin 3, Fin 30, Fin 300),
         (Fin 4, Fin 40, Fin 400), (Fin 5, Fin 50, Fin 500)] (Buffers_init 3)))
   = [Fin 3, Fin 4, Fin 5]"
  using ring_buffer_last_samples [of 3 "Buffers_init 3"
      "[(Fin 1, Fin 10, Fin 100), (Fin 2, Fin 20, Fin 200), (Fin 3, Fin 30, Fin 300),
        (Fin 4, Fin 40, Fin 400), (Fin 5, Fin 50, Fin 500)]" 2]
  by (simp add: Buffers_init_def)

section \<open>Invalid configurations\<close>

lemma zero_sample_rate:
  "Filter_Filter type (Fin 0) freq1 freq2 q = all_NaN"
proof (cases type)
  case HighPass
  have "fsin (Fin 2 * PI * freq1 / Fin 0) = NaN" "fcos (Fin 2 * PI * freq1 / Fin 0) = NaN"
    by (simp_all add: fsin_not_finite fcos_not_finite divide_by_zero_not_finite)
  then show ?thesis
    using HighPass by (simp add: Filter_Filter_def normalize_def all_NaN_def Let_def NaN_arith)
next
  case LowPass
  have "fsin (Fin 2 * PI * freq1 / Fin 0) = NaN" "fcos (Fin 2 * PI * freq1 / Fin 0) = NaN"
    by (simp_all add: fsin_not_finite fcos_not_finite divide_by_zero_not_finite)
  then show ?thesis
    using LowPass by (simp add: Filter_Filter_def normalize_def all_NaN_def Let_def NaN_arith)
next
  case BandPass
  have "fsin (Fin 2 * PI * (freq2 - freq1) / Fin 0) = NaN"
       "fcos (Fin 2 * PI * fsqrt (freq1 * freq2) / Fin 0) = NaN"
    by (simp_all add: fsin_not_finite fcos_not_finite divide_by_zero_not_finite)
  then show ?thesis
    using BandPass by (simp add: Filter_Filter_def normalize_def all_NaN_def Let_def NaN_arith)
qed

text \<open>
  C6, as stated, fails: constructing a high-pass filter with sample rate 0 reports nothing and
  returns a filter whose computed coefficients are all NaN.
\<close>

theorem invalid_configuration_counterexample:
  "invalid_configuration HighPass (Fin 0) (Fin 5) (Fin 0) (Fin 1)
   \<and> Filter_Filter HighPass (Fin 0) (Fin 5) (Fin 0) (Fin 1)
     = \<lparr>b0 = NaN, b1 = NaN, b2 = NaN, a0 = Fin 1, a1 = NaN, a2 = NaN,
        x1 = Fin 0, x2 = Fin 0, y1 = Fin 0, y2 = Fin 0\<rparr>"
  by (simp add: invalid_configuration_def Filter_Filter_def normalize_def Let_def PI_def
        minus_float_def)

text \<open>
  C6, amended. The constructor validates nothing and reports no error. For an invalid
  configuration it returns, as for every other one, the filter of the formulas, with \<open>a0 = 1\<close>
  and zero delay lines; with sample rate 0 every computed coefficient of that filter is NaN.
\<close>

theorem invalid_configuration_unchecked:
  "(invalid_configuration type sample_rate freq1 freq2 q \<longrightarrow>
      Filter_Filter type sample_rate freq1 freq2 q = spec_filter type sample_rate freq1 freq2 q
      \<and> a0 (Filter_Filter type sample_rate freq1 freq2 q) = Fin 1
      \<and> x1 (Filter_Filter type sample_rate freq1 freq2 q) = Fin 0
      \<and> x2 (Filter_Filter type sample_rate freq1 freq2 q) = Fin 0
      \<and> y1 (Filter_Filter type sample_rate freq1 freq2 q) = Fin 0
      \<and> y2 (Filter_Filter type sample_rate freq1 freq2 q) = Fin 0)
   \<and> Filter_Filter type (Fin 0) freq1 freq2 q = all_NaN"
proof -
  have "Filter_Filter type sample_rate freq1 freq2 q = spec_filter type sample_rate freq1 freq2 q"
    by (cases type)
       (simp_all add: Filter_Filter_def normalize_def spec_filter_def spec_omega_def
          spec_alpha_def Let_def neg_two_times bandpass_shape)
  moreover have "a0 (Filter_Filter type sample_rate freq1 freq2 q) = Fin 1"
    by (simp add: Filter_Filter_def normalize_def)
  moreover have "x1 (Filter_Filter type sample_rate freq1 freq2 q) = Fin 0"
      "x2 (Filter_Filter type sample_rate freq1 freq2 q) = Fin 0"
      "y1 (Filter_Filter type sample_rate freq1 freq2 q) = Fin 0"
      "y2 (Filter_Filter type sample_rate freq1 freq2 q) = Fin 0"
    by (cases type; simp add: Filter_Filter_def normalize_def Let_def)+
  ultimately show ?thesis
    by (simp add: zero_sample_rate)
qed

text \<open>A band-pass with its corners in the wrong order (50 Hz, 5 Hz).\<close>

theorem invalid_configuration_unchecked_witness:
  "invalid_configuration BandPass (Fin 2000) (Fin 50) (Fin 5) (Fin 1)
   \<and> Filter_Filter BandPass (Fin 2000) (Fin 50) (Fin 5) (Fin 1)
     = spec_filter BandPass (Fin 2000) (Fin 50) (Fin 5) (Fin 1)
   \<and> a0 (Filter_Filter BandPass (Fin 2000) (Fin 50) (Fin 5) (Fin 1)) = Fin 1"
proof -
  have i: "invalid_configuration BandPass (Fin 2000) (Fin 50) (Fin 5) (Fin 1)"
    by (simp add: invalid_configuration_def)
  show ?thesis
    using i invalid_configuration_unchecked [of BandPass "Fin 2000" "Fin 50" "Fin 5" "Fin 1"]
    by blast
qed

section \<open>Properties of the generator\<close>








subsection \<open>The burst state machine\<close>

lemma burst_update_no_trial:
  assumes "index mod 50 \<noteq> 0"
  shows "burst_update index s g
         = (if 0 < burst_duration s then s\<lparr>burst_duration := burst_duration s - 1\<rparr> else s, g)"
  using assms by (simp add: burst_update_def)

lemma burst_update_success:
  assumes "index mod 50 = 0" "g 0 < Fin 0.2"
  shows "burst_update index s g
         = (s\<lparr>burst_factor := g 1, burst_duration := 99\<rparr>, \<lambda>n. g (Suc (Suc n)))"
  using assms by (simp add: burst_update_def draw_def)

lemma burst_update_failure_in_burst:
  assumes "index mod 50 = 0" "\<not> g 0 < Fin 0.2" "0 < burst_duration s"
  shows "burst_update index s g
         = (s\<lparr>burst_duration := burst_duration s - 1\<rparr>, \<lambda>n. g (Suc n))"
  using assms by (simp add: burst_update_def draw_def)

lemma burst_update_failure_idle:
  assumes "index mod 50 = 0" "\<not> g 0 < Fin 0.2" "burst_duration s \<le> 0"
  shows "burst_update index s g = (s\<lparr>burst_factor := Fin 1\<rparr>, \<lambda>n. g (Suc n))"
  using assms by (simp add: burst_update_def draw_def)

lemma generate_burst_fields:
  "burst_factor (fst (snd (generate_emg_signal time index s g)))
     = burst_factor (fst (burst_update index s g))"
  "burst_duration (fst (snd (generate_emg_signal time index s g)))
     = burst_duration (fst (burst_update index s g))"
  "burst_factor (fst (snd (WP_generate_emg_signal time index s g)))
     = burst_factor (fst (burst_update index s g))"
  "burst_duration (fst (snd (WP_generate_emg_signal time index s g)))
     = burst_duration (fst (burst_update index s g))"
  by (simp_all add: generate_emg_signal_def WP_generate_emg_signal_def split_beta Let_def)

lemma generate_draws:
  "snd (snd (generate_emg_signal time index s g))
     = (\<lambda>n. snd (burst_update index s g) (n + 5))"
  "snd (snd (WP_generate_emg_signal time index s g))
     = (\<lambda>n. snd (burst_update index s g) (n + 5))"
proof -
  have five: "n + 5 = Suc (Suc (Suc (Suc (Suc n))))" for n :: nat
    by simp
  show "snd (snd (generate_emg_signal time index s g))
     = (\<lambda>n. snd (burst_update index s g) (n + 5))"
    unfolding five
    by (simp add: generate_emg_signal_def split_beta Let_def draw_def)
  show "snd (snd (WP_generate_emg_signal time index s g))
     = (\<lambda>n. snd (burst_update index s g) (n + 5))"
    unfolding five
    by (simp add: WP_generate_emg_signal_def split_beta Let_def draw_def)
qed

lemma wrap_mod_50:
  fixes i :: nat
  shows "((i + 1) mod 1000) mod 50 = (i + 1) mod 50"
    and "int ((i + 1) mod 1000) mod 50 = (int i + 1) mod 50"
proof -
  show n: "((i + 1) mod 1000) mod 50 = (i + 1) mod 50"
    by (simp add: mod_mod_cancel)
  have "int ((i + 1) mod 1000) mod 50 = int (((i + 1) mod 1000) mod 50)"
    by (simp add: zmod_int)
  also have "\<dots> = int ((i + 1) mod 50)"
    by (simp only: n)
  also have "\<dots> = (int i + 1) mod 50"
    by (simp add: zmod_int add.commute)
  finally show "int ((i + 1) mod 1000) mod 50 = (int i + 1) mod 50" .
qed

lemma shift_mod_50:
  fixes a J I :: int
  assumes "J mod 50 = (I + 1) mod 50"
  shows "(a + J) mod 50 = (a + I + 1) mod 50"
proof -
  have "(a + J) mod 50 = (a + J mod 50) mod 50"
    by (simp add: mod_add_right_eq)
  also have "\<dots> = (a + (I + 1) mod 50) mod 50"
    by (simp only: assms)
  also have "\<dots> = (a + (I + 1)) mod 50"
    by (simp add: mod_add_right_eq)
  finally show ?thesis
    by (simp add: add.assoc)
qed

lemma int_mod_50: "(i::nat) mod 50 = 0 \<longleftrightarrow> int i mod 50 = 0"
  by (metis of_nat_eq_0_iff of_nat_numeral zmod_int)

lemma countdown_arith:
  fixes d I :: int
  shows "I mod 50 = 0 \<Longrightarrow> (99 + I + 1) mod 50 = 0"
    and "I mod 50 = 0 \<Longrightarrow> (49 + I + 1) mod 50 = 0"
    and "I mod 50 = 0 \<Longrightarrow> 0 < d \<Longrightarrow> d \<le> 99 \<Longrightarrow> (d + I) mod 50 = 0 \<Longrightarrow> d = 50"
  by presburger+

lemma burst_update_invariant:
  fixes i :: nat and g :: mt19937
  assumes inv: "burst_invariant s i"
  shows "burst_invariant (fst (burst_update i s g)) ((i + 1) mod BUFFER_SIZE)"
proof -
  define j where "j = (i + 1) mod BUFFER_SIZE"
  have j: "j < BUFFER_SIZE" "j mod 50 = (i + 1) mod 50" "int j mod 50 = (int i + 1) mod 50"
    using wrap_mod_50 [of i] by (simp_all add: j_def BUFFER_SIZE_def)
  have d: "0 \<le> burst_duration s" "burst_duration s \<le> 99"
    using inv by (simp_all add: burst_invariant_def)
  have pos: "(burst_duration s + int i) mod 50 = 0" if "0 < burst_duration s"
    using inv that by (simp add: burst_invariant_def)
  have idle: "i mod 50 = 0 \<or> burst_factor s = Fin 1" if "\<not> 0 < burst_duration s"
    using inv that by (simp add: burst_invariant_def)
  consider (no) "i mod 50 \<noteq> 0"
    | (succ) "i mod 50 = 0" "g 0 < Fin 0.2"
    | (fail_in) "i mod 50 = 0" "\<not> g 0 < Fin 0.2" "0 < burst_duration s"
    | (fail_idle) "i mod 50 = 0" "\<not> g 0 < Fin 0.2" "burst_duration s \<le> 0"
    by fastforce
  then have "burst_invariant (fst (burst_update i s g)) j"
  proof cases
    case no
    show ?thesis
    proof (cases "0 < burst_duration s")
      case True
      have a: "(burst_duration s - 1 + int j) mod 50 = 0"
        using shift_mod_50 [OF j(3), of "burst_duration s - 1"] pos [OF True] by simp
      have b: "j mod 50 = 0" if "\<not> 0 < burst_duration s - 1"
      proof -
        have "burst_duration s = 1" using that True by simp
        then have "(int i + 1) mod 50 = 0" using pos [OF True] by (simp add: add.commute)
        then have "int j mod 50 = 0" using j(3) by simp
        then show ?thesis by (simp add: int_mod_50)
      qed
      show ?thesis
        unfolding burst_update_no_trial [OF no]
        using True d a b j(1) by (simp add: burst_invariant_def)
    next
      case False
      then have "burst_factor s = Fin 1"
        using idle no by simp
      then show ?thesis
        unfolding burst_update_no_trial [OF no]
        using False d j(1) by (simp add: burst_invariant_def)
    qed
  next
    case succ
    have "(99 + int j) mod 50 = 0"
      using shift_mod_50 [OF j(3), of 99] countdown_arith(1) [of "int i"] succ(1)
      by (simp add: int_mod_50)
    then show ?thesis
      unfolding burst_update_success [where g = g and index = i and s = s, OF succ]
      using j(1) by (simp add: burst_invariant_def)
  next
    case fail_in
    have i0: "int i mod 50 = 0"
      using fail_in(1) by (simp add: int_mod_50)
    have "burst_duration s = 50"
      using countdown_arith(3) [OF i0 fail_in(3) d(2) pos [OF fail_in(3)]] .
    moreover have "(49 + int j) mod 50 = 0"
      using shift_mod_50 [OF j(3), of 49] countdown_arith(2) [OF i0] by simp
    ultimately show ?thesis
      unfolding burst_update_failure_in_burst [where g = g and index = i and s = s, OF fail_in]
      using j(1) by (simp add: burst_invariant_def)
  next
    case fail_idle
    show ?thesis
      unfolding burst_update_failure_idle [where g = g and index = i and s = s, OF fail_idle]
      using fail_idle(3) d j(1) by (simp add: burst_invariant_def)
  qed
  then show ?thesis
    by (simp only: j_def)
qed

lemma generate_invariant:
  assumes "burst_invariant s i"
  shows "burst_invariant (fst (snd (generate_emg_signal time i s g))) ((i + 1) mod BUFFER_SIZE)"
  using burst_update_invariant [OF assms, of g]
  by (simp add: burst_invariant_def generate_burst_fields)

lemma key_callback_generator:
  "generator (key_callback key action S) = generator S
   \<and> buffers (key_callback key action S) = buffers S"
  by (simp add: key_callback_def Let_def)

lemma glfwPollEvents_generator:
  "generator (glfwPollEvents events S) = generator S
   \<and> buffers (glfwPollEvents events S) = buffers S"
  by (induction events S rule: glfwPollEvents.induct) (simp_all add: key_callback_generator)

lemma update_signals_generator:
  "\<not> is_paused S \<Longrightarrow>
   generator (update_signals S)
     = fst (snd (generate_emg_signal (sim_t S) (buffer_index (buffers S)) (generator S) (gen S)))
   \<and> buffer_index (buffers (update_signals S)) = (buffer_index (buffers S) + 1) mod BUFFER_SIZE"
  by (simp add: update_signals_def split_beta Let_def write_samples_def)

lemma reachable_invariant:
  assumes "reachable S"
  shows "burst_invariant (generator S) (buffer_index (buffers S))"
  using assms
proof (induction rule: reachable.induct)
  case (start g)
  show ?case
    by (simp add: Simulation_init_def Generator_init_def Buffers_init_def burst_invariant_def
          BUFFER_SIZE_def)
next
  case (iteration S events)
  have r: "generator (reinitialize_highpass S) = generator S"
      "buffers (reinitialize_highpass S) = buffers S"
      "is_paused (reinitialize_highpass S) = is_paused S"
      "sim_t (reinitialize_highpass S) = sim_t S"
      "gen (reinitialize_highpass S) = gen S"
    by (simp_all add: reinitialize_highpass_def)
  show ?case
  proof (cases "is_paused S")
    case True
    then show ?thesis
      using iteration.IH
      by (simp add: loop_iteration_def glfwPollEvents_generator update_signals_def r)
  next
    case False
    then have "\<not> is_paused (reinitialize_highpass S)" by (simp add: r)
    from update_signals_generator [OF this] show ?thesis
      using generate_invariant [OF iteration.IH]
      by (simp add: loop_iteration_def glfwPollEvents_generator r)
  qed
qed

lemma burst_update_draws:
  "snd (burst_update i s g)
   = (if i mod 50 \<noteq> 0 then g
      else if g 0 < Fin 0.2 then (\<lambda>n. g (n + 2)) else (\<lambda>n. g (n + 1)))"
  by (simp add: burst_update_def draw_def)

lemma relax_after_countdown:
  assumes r: "reachable S" and p: "\<not> is_paused S" and z: "burst_duration (generator S) = 0"
  shows "burst_factor (generator (update_signals S)) = Fin 1
         \<or> (buffer_index (buffers S) mod 50 = 0 \<and> gen S 0 < Fin 0.2
            \<and> burst_duration (generator (update_signals S)) = 99)"
proof -
  define i where "i = buffer_index (buffers S)"
  have inv: "i mod 50 = 0 \<or> burst_factor (generator S) = Fin 1"
    using reachable_invariant [OF r] z by (simp add: burst_invariant_def i_def)
  have u: "generator (update_signals S)
           = fst (snd (generate_emg_signal (sim_t S) i (generator S) (gen S)))"
    using update_signals_generator [OF p] by (simp add: i_def)
  consider (no) "i mod 50 \<noteq> 0"
    | (succ) "i mod 50 = 0" "gen S 0 < Fin 0.2"
    | (fail) "i mod 50 = 0" "\<not> gen S 0 < Fin 0.2"
    by fastforce
  then show ?thesis
  proof cases
    case no
    then show ?thesis
      using inv z by (simp add: u generate_burst_fields burst_update_no_trial)
  next
    case succ
    then show ?thesis
      using burst_update_success [where g = "gen S" and index = i and s = "generator S", OF succ]
      by (simp add: u generate_burst_fields i_def)
  next
    case fail
    then show ?thesis
      using z burst_update_failure_idle
        [where g = "gen S" and index = i and s = "generator S", OF fail]
      by (simp add: u generate_burst_fields)
  qed
qed

text \<open>
  C8. For every sequence of random draws \<open>g\<close>, every cursor \<open>i\<close> and every value \<open>s\<close> of the static
  locals, in both generators: when \<open>i\<close> is not a multiple of 50 no trial is made (the multiplier
  stays and only the five draws of amplitude, frequency and noise are taken); a trial whose draw
  is below 0.2 takes the next draw as the multiplier and arms the countdown at 100, of which
  the call itself counts one off; without a successful trial the countdown goes down by one
  while positive; a failed trial leaves the multiplier alone while the countdown is positive
  and sets it to 1 when the countdown is not positive. In the running program the countdown
  stays between 0 and 99, and the tick that follows a countdown of zero produces its sample with
  multiplier 1, unless its own trial starts a new burst.
\<close>

theorem burst_state_machine:
  "(i mod 50 \<noteq> 0 \<longrightarrow>
      burst_factor (fst (snd (generate_emg_signal time i s g))) = burst_factor s
      \<and> snd (snd (generate_emg_signal time i s g)) = (\<lambda>n. g (n + 5)))
   \<and> (i mod 50 = 0 \<and> g 0 < Fin 0.2 \<longrightarrow>
      burst_factor (fst (snd (generate_emg_signal time i s g))) = g 1
      \<and> burst_duration (fst (snd (generate_emg_signal time i s g))) = 100 - 1
      \<and> snd (snd (generate_emg_signal time i s g)) = (\<lambda>n. g (n + 7)))
   \<and> (i mod 50 = 0 \<and> \<not> g 0 < Fin 0.2 \<longrightarrow>
      snd (snd (generate_emg_signal time i s g)) = (\<lambda>n. g (n + 6)))
   \<and> (\<not> (i mod 50 = 0 \<and> g 0 < Fin 0.2) \<longrightarrow>
      burst_duration (fst (snd (generate_emg_signal time i s g)))
        = (if 0 < burst_duration s then burst_duration s - 1 else burst_duration s))
   \<and> (i mod 50 = 0 \<and> \<not> g 0 < Fin 0.2 \<and> 0 < burst_duration s \<longrightarrow>
      burst_factor (fst (snd (generate_emg_signal time i s g))) = burst_factor s)
   \<and> (i mod 50 = 0 \<and> \<not> g 0 < Fin 0.2 \<and> burst_duration s \<le> 0 \<longrightarrow>
      burst_factor (fst (snd (generate_emg_signal time i s g))) = Fin 1)
   \<and> burst_factor (fst (snd (WP_generate_emg_signal time i s g)))
       = burst_factor (fst (snd (generate_emg_signal time i s g)))
   \<and> burst_duration (fst (snd (WP_generate_emg_signal time i s g)))
       = burst_duration (fst (snd (generate_emg_signal time i s g)))
   \<and> snd (snd (WP_generate_emg_signal time i s g)) = snd (snd (generate_emg_signal time i s g))
   \<and> (reachable S \<longrightarrow>
        0 \<le> burst_duration (generator S) \<and> burst_duration (generator S) \<le> 99)
   \<and> (reachable S \<and> \<not> is_paused S \<and> burst_duration (generator S) = 0 \<longrightarrow>
        burst_factor (generator (update_signals S)) = Fin 1
        \<or> (buffer_index (buffers S) mod 50 = 0 \<and> gen S 0 < Fin 0.2
           \<and> burst_duration (generator (update_signals S)) = 99))"
proof -
  have no: "burst_factor (fst (snd (generate_emg_signal time i s g))) = burst_factor s
      \<and> snd (snd (generate_emg_signal time i s g)) = (\<lambda>n. g (n + 5))"
    if "i mod 50 \<noteq> 0"
    using that by (simp add: generate_burst_fields generate_draws burst_update_no_trial)
  have succ: "burst_factor (fst (snd (generate_emg_signal time i s g))) = g 1
      \<and> burst_duration (fst (snd (generate_emg_signal time i s g))) = 100 - 1
      \<and> snd (snd (generate_emg_signal time i s g)) = (\<lambda>n. g (n + 7))"
    if "i mod 50 = 0 \<and> g 0 < Fin 0.2"
    using that burst_update_success [where g = g and index = i and s = s]
    by (simp add: generate_burst_fields generate_draws add.commute)
  have fail: "snd (snd (generate_emg_signal time i s g)) = (\<lambda>n. g (n + 6))"
    if "i mod 50 = 0 \<and> \<not> g 0 < Fin 0.2"
    using that by (simp add: generate_draws burst_update_draws add.commute)
  have count: "burst_duration (fst (snd (generate_emg_signal time i s g)))
        = (if 0 < burst_duration s then burst_duration s - 1 else burst_duration s)"
    if "\<not> (i mod 50 = 0 \<and> g 0 < Fin 0.2)"
    using that by (auto simp add: generate_burst_fields burst_update_def draw_def)
  have keep: "burst_factor (fst (snd (generate_emg_signal time i s g))) = burst_factor s"
    if "i mod 50 = 0 \<and> \<not> g 0 < Fin 0.2 \<and> 0 < burst_duration s"
    using that burst_update_failure_in_burst [where g = g and index = i and s = s]
    by (simp add: generate_burst_fields)
  have relax: "burst_factor (fst (snd (generate_emg_signal time i s g))) = Fin 1"
    if "i mod 50 = 0 \<and> \<not> g 0 < Fin 0.2 \<and> burst_duration s \<le> 0"
    using that burst_update_failure_idle [where g = g and index = i and s = s]
    by (simp add: generate_burst_fields)
  have bounds: "0 \<le> burst_duration (generator S) \<and> burst_duration (generator S) \<le> 99"
    if "reachable S"
    using reachable_invariant [OF that] by (simp add: burst_invariant_def)
  show ?thesis
    using no succ fail count keep relax bounds relax_after_countdown [of S]
    by (simp add: generate_burst_fields generate_draws)
qed

text \<open>
  A successful trial at cursor 0, a tick between trials, a failed trial during a burst, a failed
  trial after it, and the first tick of the program with a failing draw.
\<close>

theorem burst_state_machine_witness:
  "burst_factor (fst (snd (generate_emg_signal (Fin 0) 0 Generator_init (\<lambda>n. Fin 0.1)))) = Fin 0.1
   \<and> burst_duration (fst (snd (generate_emg_signal (Fin 0) 0 Generator_init (\<lambda>n. Fin 0.1)))) = 99
   \<and> burst_factor (fst (snd (generate_emg_signal (Fin 0) 1
         (Generator_init\<lparr>burst_factor := Fin 2, burst_duration := 99\<rparr>) (\<lambda>n. Fin 0.1)))) = Fin 2
   \<and> burst_duration (fst (snd (generate_emg_signal (Fin 0) 1
         (Generator_init\<lparr>burst_factor := Fin 2, burst_duration := 99\<rparr>) (\<lambda>n. Fin 0.1)))) = 98
   \<and> burst_factor (fst (snd (generate_emg_signal (Fin 0) 50
         (Generator_init\<lparr>burst_factor := Fin 2, burst_duration := 50\<rparr>) (\<lambda>n. Fin 0.5)))) = Fin 2
   \<and> burst_factor (fst (snd (generate_emg_signal (Fin 0) 100
         (Generator_init\<lparr>burst_factor := Fin 2, burst_duration := 0\<rparr>) (\<lambda>n. Fin 0.5)))) = Fin 1
   \<and> burst_factor (generator (update_signals (Simulation_init (\<lambda>n. Fin 0.5)))) = Fin 1"
proof -
  define S0 where "S0 = Simulation_init (\<lambda>n. Fin 0.5)"
  have r: "reachable S0"
    unfolding S0_def by (rule reachable.start)
  have p: "\<not> is_paused S0" "burst_duration (generator S0) = 0" "\<not> gen S0 0 < Fin 0.2"
    by (simp_all add: S0_def Simulation_init_def Generator_init_def)
  have armed: "burst_factor (fst (snd (generate_emg_signal (Fin 0) 0 Generator_init (\<lambda>n. Fin 0.1))))
        = Fin 0.1
      \<and> burst_duration (fst (snd (generate_emg_signal (Fin 0) 0 Generator_init (\<lambda>n. Fin 0.1)))) = 99"
    using burst_state_machine [of 0 "Fin 0" Generator_init "\<lambda>n. Fin 0.1" S0]
    by simp
  have counting: "burst_factor (fst (snd (generate_emg_signal (Fin 0) 1
         (Generator_init\<lparr>burst_factor := Fin 2, burst_duration := 99\<rparr>) (\<lambda>n. Fin 0.1)))) = Fin 2
      \<and> burst_duration (fst (snd (generate_emg_signal (Fin 0) 1
         (Generator_init\<lparr>burst_factor := Fin 2, burst_duration := 99\<rparr>) (\<lambda>n. Fin 0.1)))) = 98"
    using burst_state_machine [of 1 "Fin 0"
        "Generator_init\<lparr>burst_factor := Fin 2, burst_duration := 99\<rparr>" "\<lambda>n. Fin 0.1" S0]
    by simp
  have kept: "burst_factor (fst (snd (generate_emg_signal (Fin 0) 50
         (Generator_init\<lparr>burst_factor := Fin 2, burst_duration := 50\<rparr>) (\<lambda>n. Fin 0.5)))) = Fin 2"
    using burst_state_machine [of 50 "Fin 0"
        "Generator_init\<lparr>burst_factor := Fin 2, burst_duration := 50\<rparr>" "\<lambda>n. Fin 0.5" S0]
    by simp
  have relaxed: "burst_factor (fst (snd (generate_emg_signal (Fin 0) 100
         (Generator_init\<lparr>burst_factor := Fin 2, burst_duration := 0\<rparr>) (\<lambda>n. Fin 0.5)))) = Fin 1"
    using burst_state_machine [of 100 "Fin 0"
        "Generator_init\<lparr>burst_factor := Fin 2, burst_duration := 0\<rparr>" "\<lambda>n. Fin 0.5" S0]
    by simp
  have run: "burst_factor (generator (update_signals S0)) = Fin 1"
    using burst_state_machine [of 0 "Fin 0" Generator_init "\<lambda>n. Fin 0.1" S0] r p
    by blast
  show ?thesis
    using armed counting kept relaxed run unfolding S0_def by blast
qed

section \<open>Reconfiguration of the high-pass stage\<close>









end
